theory Spec2Isabelle
  imports Complex_Main
begin

section \<open>The bias smoother of \<^verbatim>\<open>apply_adjust_bias.py\<close>\<close>

text \<open>
  The class \<^verbatim>\<open>BiasAdjustment\<close> holds six scalar attributes and is mutated by four
  methods. The model passes the object explicitly: every method takes the state and
  returns the state it leaves behind together with its return value.

  Indices and the response time are Python integers (the docstring types them
  \<^verbatim>\<open>int\<close>) and are modelled as \<open>int\<close>. The policy selector is the Python string
  the caller passes.

  Bias values are the interpreter's 64-bit floats (the docstring types them
  \<^verbatim>\<open>float\<close>). A value is a finite number, one of the two infinities, or NaN. The
  special values follow IEEE 754: NaN is unequal to everything, itself included, and
  poisons every operation; \<open>inf - inf\<close> and \<open>inf * 0\<close> are NaN; a finite result
  beyond the largest double overflows to an infinity. Finite results inside that range
  are exact: rounding to 53 bits, underflow and the sign of zero are not modelled. An
  integer that meets a float is converted exactly; integers beyond the range of a
  double are outside the model.

  Python's true division raises \<^verbatim>\<open>ZeroDivisionError\<close> on a zero divisor; the
  exception leaves \<^verbatim>\<open>calculate_bias\<close> before the assignment to
  \<^verbatim>\<open>self.bias_level\<close>, and is a value of the model.
\<close>

datatype error = ZeroDivisionError

datatype pyfloat = Fin real | PInf | NInf | NaN

text \<open>The largest finite double, \<^verbatim>\<open>sys.float_info.max\<close>, and the overflow of a real result.\<close>

definition float_max :: real where
  "float_max = (2 - 1 / 2 ^ 52) * 2 ^ 1023"

definition fl :: "real \<Rightarrow> pyfloat" where
  "fl x = (if float_max < x then PInf else if x < - float_max then NInf else Fin x)"

text \<open>Python's \<^verbatim>\<open>!=\<close>, \<^verbatim>\<open><=\<close> and \<^verbatim>\<open><\<close> on floats.\<close>

fun py_ne :: "pyfloat \<Rightarrow> pyfloat \<Rightarrow> bool" where
  "py_ne NaN y = True"
| "py_ne x NaN = True"
| "py_ne x y = (x \<noteq> y)"

fun py_le :: "pyfloat \<Rightarrow> pyfloat \<Rightarrow> bool" where
  "py_le NaN y = False"
| "py_le x NaN = False"
| "py_le NInf y = True"
| "py_le x PInf = True"
| "py_le PInf y = False"
| "py_le x NInf = False"
| "py_le (Fin a) (Fin b) = (a \<le> b)"

fun py_lt :: "pyfloat \<Rightarrow> pyfloat \<Rightarrow> bool" where
  "py_lt NaN y = False"
| "py_lt x NaN = False"
| "py_lt PInf y = False"
| "py_lt x NInf = False"
| "py_lt NInf y = True"
| "py_lt x PInf = True"
| "py_lt (Fin a) (Fin b) = (a < b)"

text \<open>Negation, addition, subtraction and multiplication of floats.\<close>

fun py_neg :: "pyfloat \<Rightarrow> pyfloat" where
  "py_neg (Fin a) = Fin (- a)"
| "py_neg PInf = NInf"
| "py_neg NInf = PInf"
| "py_neg NaN = NaN"

fun py_add :: "pyfloat \<Rightarrow> pyfloat \<Rightarrow> pyfloat" where
  "py_add NaN y = NaN"
| "py_add x NaN = NaN"
| "py_add (Fin a) (Fin b) = fl (a + b)"
| "py_add PInf NInf = NaN"
| "py_add NInf PInf = NaN"
| "py_add PInf y = PInf"
| "py_add NInf y = NInf"
| "py_add x PInf = PInf"
| "py_add x NInf = NInf"

definition py_sub :: "pyfloat \<Rightarrow> pyfloat \<Rightarrow> pyfloat" where
  "py_sub x y = py_add x (py_neg y)"

fun py_mul :: "pyfloat \<Rightarrow> pyfloat \<Rightarrow> pyfloat" where
  "py_mul NaN y = NaN"
| "py_mul x NaN = NaN"
| "py_mul (Fin a) (Fin b) = fl (a * b)"
| "py_mul (Fin a) PInf = (if a = 0 then NaN else if 0 < a then PInf else NInf)"
| "py_mul (Fin a) NInf = (if a = 0 then NaN else if 0 < a then NInf else PInf)"
| "py_mul PInf (Fin b) = (if b = 0 then NaN else if 0 < b then PInf else NInf)"
| "py_mul NInf (Fin b) = (if b = 0 then NaN else if 0 < b then NInf else PInf)"
| "py_mul PInf PInf = PInf"
| "py_mul PInf NInf = NInf"
| "py_mul NInf PInf = NInf"
| "py_mul NInf NInf = PInf"

text \<open>
  A float divided by an integer other than zero, the integer converted exactly (the
  zero divisor is the caller's case), and \<^verbatim>\<open>np.exp\<close> of a finite argument, which
  overflows to infinity.
\<close>

fun py_div_int :: "pyfloat \<Rightarrow> int \<Rightarrow> pyfloat" where
  "py_div_int (Fin a) n = fl (a / real_of_int n)"
| "py_div_int PInf n = (if 0 < n then PInf else NInf)"
| "py_div_int NInf n = (if 0 < n then NInf else PInf)"
| "py_div_int NaN n = NaN"

definition np_exp :: "real \<Rightarrow> pyfloat" where
  "np_exp x = fl (exp x)"

record BiasAdjustment =
  response_time :: int
  bias_level :: pyfloat
  target_bias :: pyfloat
  last_target_bias :: pyfloat
  target_index :: int
  last_update_index :: int

text \<open>The constructor \<^verbatim>\<open>__init__(self, response_time=20, bias_init=0)\<close>.\<close>

definition init :: "int \<Rightarrow> pyfloat \<Rightarrow> BiasAdjustment" where
  "init rt bias_init =
     \<lparr> response_time = rt,
       bias_level = bias_init,
       target_bias = Fin 0,
       last_target_bias = bias_init,
       target_index = 0,
       last_update_index = 0 \<rparr>"

definition update_target_bias :: "BiasAdjustment \<Rightarrow> int \<Rightarrow> pyfloat \<Rightarrow> BiasAdjustment" where
  "update_target_bias s new_index new_bias =
     s\<lparr> last_target_bias := target_bias s,
        target_bias := new_bias,
        target_index := new_index + response_time s,
        last_update_index := new_index \<rparr>"

definition validate_bias_input ::
  "BiasAdjustment \<Rightarrow> int \<Rightarrow> pyfloat \<Rightarrow> BiasAdjustment \<times> bool" where
  "validate_bias_input s index bias_input =
     (if py_ne (target_bias s) bias_input
      then (update_target_bias s index bias_input, True)
      else (s, False))"

definition calculate_bias ::
  "BiasAdjustment \<Rightarrow> int \<Rightarrow> string \<Rightarrow> error + (BiasAdjustment \<times> pyfloat)" where
  "calculate_bias s current_index bias_type =
     (let time_elapsed = current_index - last_update_index s in
      if bias_type = ''gradual'' then
        (if current_index < target_index s then
           (if response_time s = 0 then Inl ZeroDivisionError
            else
              let change = py_sub (Fin 1)
                    (np_exp ((- real_of_int time_elapsed) / real_of_int (response_time s)));
                  bl = py_add (bias_level s)
                         (py_mul (py_sub (target_bias s) (bias_level s)) change)
              in Inr (s\<lparr>bias_level := bl\<rparr>, bl))
         else Inr (s\<lparr>bias_level := target_bias s\<rparr>, target_bias s))
      else if bias_type = ''linear'' then
        (if current_index < target_index s then
           (if target_index s - last_update_index s = 0 then Inl ZeroDivisionError
            else
              let slope = py_div_int (py_sub (target_bias s) (last_target_bias s))
                            (target_index s - last_update_index s);
                  bl = py_add
                         (py_mul slope (Fin (real_of_int (current_index - last_update_index s))))
                         (last_target_bias s)
              in Inr (s\<lparr>bias_level := bl\<rparr>, bl))
         else Inr (s\<lparr>bias_level := target_bias s\<rparr>, target_bias s))
      else Inr (s\<lparr>bias_level := bias_level s\<rparr>, bias_level s))"

definition apply_bias ::
  "BiasAdjustment \<Rightarrow> int \<Rightarrow> pyfloat \<Rightarrow> string \<Rightarrow> error + (BiasAdjustment \<times> pyfloat)" where
  "apply_bias s index bias_input bias_type =
     (let (s', is_changed) = validate_bias_input s index bias_input;
          has_not_arrived = (index \<le> target_index s')
      in if is_changed \<or> has_not_arrived
         then calculate_bias s' index bias_type
         else Inr (s', bias_level s'))"

text \<open>
  Successive calls of \<^verbatim>\<open>calculate_bias\<close> on one object with the same policy, as a
  caller's loop over a list of indices makes them: the values returned, in order, and
  the state after the last call. The first exception ends the run.
\<close>

fun calculate_bias_seq ::
  "BiasAdjustment \<Rightarrow> int list \<Rightarrow> string \<Rightarrow> error + (BiasAdjustment \<times> pyfloat list)" where
  "calculate_bias_seq s [] bias_type = Inr (s, [])"
| "calculate_bias_seq s (i # is) bias_type =
     (case calculate_bias s i bias_type of
        Inl e \<Rightarrow> Inl e
      | Inr (s', v) \<Rightarrow>
          (case calculate_bias_seq s' is bias_type of
             Inl e \<Rightarrow> Inl e
           | Inr (s'', vs) \<Rightarrow> Inr (s'', v # vs)))"

text \<open>
  The states an object constructed with response time \<open>rt\<close> and initial value \<open>b\<close>
  can be in: the constructed one, and the one each method leaves behind, whatever
  its arguments. A call that raises leaves the state of the calls before it.
\<close>

inductive reachable :: "int \<Rightarrow> pyfloat \<Rightarrow> BiasAdjustment \<Rightarrow> bool"
  for rt :: int and b :: pyfloat where
  reach_init: "reachable rt b (init rt b)"
| reach_validate: "reachable rt b s \<Longrightarrow> reachable rt b (fst (validate_bias_input s i x))"
| reach_update: "reachable rt b s \<Longrightarrow> reachable rt b (update_target_bias s i x)"
| reach_calculate:
    "reachable rt b s \<Longrightarrow> calculate_bias s i p = Inr (s', v) \<Longrightarrow> reachable rt b s'"
| reach_apply:
    "reachable rt b s \<Longrightarrow> apply_bias s i x p = Inr (s', v) \<Longrightarrow> reachable rt b s'"

text \<open>
  What every target update establishes and no method breaks: the response time is the
  constructor's, and the arrival index is the set index plus the response time, unless
  both indices are still the \<open>0\<close> of the constructor.
\<close>

definition window_inv :: "int \<Rightarrow> BiasAdjustment \<Rightarrow> bool" where
  "window_inv rt s \<longleftrightarrow>
     response_time s = rt
     \<and> (target_index s = 0 \<and> last_update_index s = 0
        \<or> target_index s = last_update_index s + rt)"

section \<open>Float arithmetic inside the range\<close>

lemma float_max_eq: "float_max = 2 ^ 1024 - 2 ^ 971"
  by (simp add: float_max_def)

lemma float_max_million: "1000000 \<le> float_max"
  by (simp add: float_max_def)

lemma float_max_below: "float_max < 2 * 10 ^ 308"
  by (simp add: float_max_def)

lemma float_max_above: "10 ^ 308 \<le> float_max"
  by (simp add: float_max_def)

lemma fl_Fin: "\<bar>x\<bar> \<le> float_max \<Longrightarrow> fl x = Fin x"
  by (auto simp add: fl_def)

lemma fl_small: "\<bar>x\<bar> \<le> 1000000 \<Longrightarrow> fl x = Fin x"
  using float_max_million by (intro fl_Fin) linarith

lemma py_add_Fin: "\<bar>a + b\<bar> \<le> float_max \<Longrightarrow> py_add (Fin a) (Fin b) = Fin (a + b)"
  by (simp add: fl_Fin)

lemma py_sub_Fin: "\<bar>a - b\<bar> \<le> float_max \<Longrightarrow> py_sub (Fin a) (Fin b) = Fin (a - b)"
  by (simp add: py_sub_def fl_Fin)

lemma py_mul_Fin: "\<bar>a * b\<bar> \<le> float_max \<Longrightarrow> py_mul (Fin a) (Fin b) = Fin (a * b)"
  by (simp add: fl_Fin)

lemma np_exp_nonpos:
  assumes "x \<le> 0"
  shows "np_exp x = Fin (exp x)"
proof -
  from assms have "exp x \<le> 1"
    by simp
  moreover have "0 < exp x"
    by simp
  ultimately have "\<bar>exp x\<bar> \<le> 1000000"
    by linarith
  then show ?thesis
    by (simp add: np_exp_def fl_small)
qed

lemma py_ne_same: "x \<noteq> NaN \<Longrightarrow> \<not> py_ne x x"
  by (cases x) simp_all

lemma py_ne_False_eq: "\<not> py_ne x y \<Longrightarrow> x = y"
  by (cases x; cases y) simp_all

section \<open>Target updates\<close>

text \<open>
  C4: a candidate that differs from the stored target (Python's \<^verbatim>\<open>!=\<close>) is
  accepted: \<^verbatim>\<open>validate_bias_input\<close> returns \<open>True\<close>, the old target becomes the
  previous target, the candidate becomes the target, the set index is the index of the
  call and the arrival index is that index plus the response time, so that the arrival
  index is the set index plus the response time. The current value and the response
  time stay.
\<close>

theorem validate_bias_input_accepts:
  assumes "py_ne (target_bias s) bias_input"
  shows "snd (validate_bias_input s index bias_input) = True
    \<and> last_target_bias (fst (validate_bias_input s index bias_input)) = target_bias s
    \<and> target_bias (fst (validate_bias_input s index bias_input)) = bias_input
    \<and> last_update_index (fst (validate_bias_input s index bias_input)) = index
    \<and> target_index (fst (validate_bias_input s index bias_input)) = index + response_time s
    \<and> target_index (fst (validate_bias_input s index bias_input))
        = last_update_index (fst (validate_bias_input s index bias_input))
          + response_time (fst (validate_bias_input s index bias_input))
    \<and> bias_level (fst (validate_bias_input s index bias_input)) = bias_level s
    \<and> response_time (fst (validate_bias_input s index bias_input)) = response_time s"
  using assms by (simp add: validate_bias_input_def update_target_bias_def)

theorem validate_bias_input_accepts_witness:
  "py_ne (target_bias (init 20 (Fin 0))) (Fin 10)
   \<and> validate_bias_input (init 20 (Fin 0)) 7 (Fin 10)
      = (\<lparr> response_time = 20, bias_level = Fin 0, target_bias = Fin 10,
           last_target_bias = Fin 0, target_index = 27, last_update_index = 7 \<rparr>, True)"
proof -
  have h: "py_ne (target_bias (init 20 (Fin 0))) (Fin 10)"
    by (simp add: init_def)
  have "validate_bias_input (init 20 (Fin 0)) 7 (Fin 10)
      = (\<lparr> response_time = 20, bias_level = Fin 0, target_bias = Fin 10,
           last_target_bias = Fin 0, target_index = 27, last_update_index = 7 \<rparr>, True)"
    using validate_bias_input_accepts [OF h, of 7]
    by (simp add: validate_bias_input_def update_target_bias_def init_def)
  with h show ?thesis by simp
qed

text \<open>
  C5, as amended: a candidate equal to the stored target (Python's \<^verbatim>\<open>!=\<close> is
  false) is refused: \<^verbatim>\<open>validate_bias_input\<close> returns \<open>False\<close> and the state is the
  one before the call, all six attributes. When the candidate is not NaN, the second
  of two calls with that candidate returns \<open>False\<close> and changes nothing, whatever the
  first did.
\<close>

theorem validate_bias_input_same_target:
  "(\<not> py_ne (target_bias s) bias_input \<longrightarrow>
      validate_bias_input s index bias_input = (s, False))
   \<and> (bias_input \<noteq> NaN \<longrightarrow>
        validate_bias_input (fst (validate_bias_input s index bias_input)) index' bias_input
          = (fst (validate_bias_input s index bias_input), False))"
proof -
  have a: "\<not> py_ne (target_bias s) bias_input \<longrightarrow>
      validate_bias_input s index bias_input = (s, False)"
    by (simp add: validate_bias_input_def)
  have b: "bias_input \<noteq> NaN \<longrightarrow>
        validate_bias_input (fst (validate_bias_input s index bias_input)) index' bias_input
          = (fst (validate_bias_input s index bias_input), False)"
  proof
    assume n: "bias_input \<noteq> NaN"
    have "\<not> py_ne (target_bias (fst (validate_bias_input s index bias_input))) bias_input"
    proof (cases "py_ne (target_bias s) bias_input")
      case True
      then have "target_bias (fst (validate_bias_input s index bias_input)) = bias_input"
        by (simp add: validate_bias_input_def update_target_bias_def)
      with n show ?thesis
        by (simp add: py_ne_same)
    next
      case False
      then show ?thesis
        by (simp add: validate_bias_input_def)
    qed
    then show "validate_bias_input (fst (validate_bias_input s index bias_input)) index' bias_input
          = (fst (validate_bias_input s index bias_input), False)"
      by (simp add: validate_bias_input_def [of "fst (validate_bias_input s index bias_input)"])
  qed
  from a b show ?thesis by simp
qed

theorem validate_bias_input_same_target_witness:
  "\<not> py_ne (target_bias (init 20 (Fin 5))) (Fin 0)
   \<and> validate_bias_input (init 20 (Fin 5)) 3 (Fin 0) = (init 20 (Fin 5), False)
   \<and> Fin 10 \<noteq> NaN
   \<and> validate_bias_input (fst (validate_bias_input (init 20 (Fin 5)) 3 (Fin 10))) 4 (Fin 10)
       = (\<lparr> response_time = 20, bias_level = Fin 5, target_bias = Fin 10,
            last_target_bias = Fin 0, target_index = 23, last_update_index = 3 \<rparr>, False)"
proof -
  have h: "\<not> py_ne (target_bias (init 20 (Fin 5))) (Fin 0)"
    by (simp add: init_def)
  have n: "Fin 10 \<noteq> NaN"
    by simp
  have s: "fst (validate_bias_input (init 20 (Fin 5)) 3 (Fin 10))
       = \<lparr> response_time = 20, bias_level = Fin 5, target_bias = Fin 10,
            last_target_bias = Fin 0, target_index = 23, last_update_index = 3 \<rparr>"
    by (simp add: validate_bias_input_def update_target_bias_def init_def)
  from validate_bias_input_same_target [of "init 20 (Fin 5)" "Fin 0" 3 4] h
  have a: "validate_bias_input (init 20 (Fin 5)) 3 (Fin 0) = (init 20 (Fin 5), False)"
    by simp
  from validate_bias_input_same_target [of "init 20 (Fin 5)" "Fin 10" 3 4] n
  have b: "validate_bias_input (fst (validate_bias_input (init 20 (Fin 5)) 3 (Fin 10))) 4 (Fin 10)
       = (fst (validate_bias_input (init 20 (Fin 5)) 3 (Fin 10)), False)"
    by simp
  from h n a b s show ?thesis by simp
qed

text \<open>
  The claim as stated fails for the candidate NaN: it is unequal to the stored NaN, so
  the second call with the same candidate returns \<open>True\<close> again and moves the set
  index and the arrival index.
\<close>

theorem validate_bias_input_same_target_counterexample:
  "validate_bias_input (init 20 (Fin 0)) 3 NaN
     = (\<lparr> response_time = 20, bias_level = Fin 0, target_bias = NaN,
          last_target_bias = Fin 0, target_index = 23, last_update_index = 3 \<rparr>, True)
   \<and> validate_bias_input (fst (validate_bias_input (init 20 (Fin 0)) 3 NaN)) 4 NaN
     = (\<lparr> response_time = 20, bias_level = Fin 0, target_bias = NaN,
          last_target_bias = NaN, target_index = 24, last_update_index = 4 \<rparr>, True)"
  by (simp add: validate_bias_input_def update_target_bias_def init_def)

section \<open>Computing the value\<close>

text \<open>
  C1: at an index that is not below the arrival index, \<^verbatim>\<open>calculate_bias\<close> with
  the policy \<^verbatim>\<open>'gradual'\<close> or \<^verbatim>\<open>'linear'\<close> stores the target as the current
  value and returns it. In particular, after a target \<open>T\<close> has been set at index \<open>i\<close>
  on an object with response time \<open>R\<close>, the call at index \<open>i + R\<close> returns \<open>T\<close>.
\<close>

theorem calculate_bias_arrived:
  assumes "bias_type = ''gradual'' \<or> bias_type = ''linear''"
  shows "(target_index s \<le> index \<longrightarrow>
            calculate_bias s index bias_type
              = Inr (s\<lparr>bias_level := target_bias s\<rparr>, target_bias s))
    \<and> calculate_bias (update_target_bias s0 i T) (i + response_time s0) bias_type
        = Inr ((update_target_bias s0 i T)\<lparr>bias_level := T\<rparr>, T)"
  using assms by (auto simp add: calculate_bias_def update_target_bias_def)

theorem calculate_bias_arrived_witness:
  "(''linear'' = ''gradual'' \<or> ''linear'' = ''linear'')
   \<and> target_index (update_target_bias (init 20 (Fin 3)) 5 (Fin 10)) \<le> 30
   \<and> calculate_bias (update_target_bias (init 20 (Fin 3)) 5 (Fin 10)) 30 ''linear''
       = Inr (\<lparr> response_time = 20, bias_level = Fin 10, target_bias = Fin 10,
                last_target_bias = Fin 0, target_index = 25, last_update_index = 5 \<rparr>, Fin 10)
   \<and> calculate_bias (update_target_bias (init 20 (Fin 3)) 5 (Fin 10))
         (5 + response_time (init 20 (Fin 3))) ''linear''
       = Inr (\<lparr> response_time = 20, bias_level = Fin 10, target_bias = Fin 10,
                last_target_bias = Fin 0, target_index = 25, last_update_index = 5 \<rparr>, Fin 10)"
proof -
  have p: "''linear'' = ''gradual'' \<or> ''linear'' = ''linear''"
    by simp
  have le: "target_index (update_target_bias (init 20 (Fin 3)) 5 (Fin 10)) \<le> 30"
    by (simp add: update_target_bias_def init_def)
  from calculate_bias_arrived
    [OF p, of "update_target_bias (init 20 (Fin 3)) 5 (Fin 10)" 30 "init 20 (Fin 3)" 5 "Fin 10"] le
  show ?thesis
    by (simp add: update_target_bias_def init_def)
qed

text \<open>
  C2, as amended: with a response time other than zero and an index below the arrival
  index, the policy \<^verbatim>\<open>'gradual'\<close> takes the elapsed count \<open>index - last_update_index\<close>,
  moves the current value by the fraction \<open>1 - exp (- elapsed / response_time)\<close> of
  its distance to the target, stores the result and returns it: a recurrence on the
  value stored by the call before. Nothing but the current value changes.
\<close>

theorem calculate_bias_gradual_in_transit:
  assumes "response_time s \<noteq> 0" and "index < target_index s"
  shows "calculate_bias s index ''gradual''
     = Inr (s\<lparr>bias_level :=
               py_add (bias_level s)
                 (py_mul (py_sub (target_bias s) (bias_level s))
                    (py_sub (Fin 1)
                       (np_exp ((- real_of_int (index - last_update_index s))
                                  / real_of_int (response_time s)))))\<rparr>,
            py_add (bias_level s)
              (py_mul (py_sub (target_bias s) (bias_level s))
                 (py_sub (Fin 1)
                    (np_exp ((- real_of_int (index - last_update_index s))
                               / real_of_int (response_time s))))))"
  unfolding calculate_bias_def Let_def using assms
  by (simp only: if_True if_False simp_thms)

theorem calculate_bias_gradual_in_transit_witness:
  "response_time (update_target_bias (init 20 (Fin 3)) 5 (Fin 10)) \<noteq> 0
   \<and> 15 < target_index (update_target_bias (init 20 (Fin 3)) 5 (Fin 10))
   \<and> calculate_bias (update_target_bias (init 20 (Fin 3)) 5 (Fin 10)) 15 ''gradual''
       = Inr (\<lparr> response_time = 20, bias_level = Fin (3 + 7 * (1 - exp (- (1 / 2)))),
                target_bias = Fin 10, last_target_bias = Fin 0,
                target_index = 25, last_update_index = 5 \<rparr>,
              Fin (3 + 7 * (1 - exp (- (1 / 2)))))"
proof -
  have r: "response_time (update_target_bias (init 20 (Fin 3)) 5 (Fin 10)) \<noteq> 0"
    by (simp add: update_target_bias_def init_def)
  have lt: "15 < target_index (update_target_bias (init 20 (Fin 3)) 5 (Fin 10))"
    by (simp add: update_target_bias_def init_def)
  have pos: "0 < exp (- (1 / 2) :: real)" and le1: "exp (- (1 / 2) :: real) \<le> 1"
    by simp_all
  have e: "np_exp (- (1 / 2)) = Fin (exp (- (1 / 2)))"
    by (rule np_exp_nonpos) simp
  have c: "py_sub (Fin 1) (Fin (exp (- (1 / 2)))) = Fin (1 - exp (- (1 / 2)))"
    using pos le1 by (intro py_sub_Fin order_trans [OF _ float_max_million]) linarith
  have d: "py_sub (Fin 10) (Fin 3) = Fin 7"
    by (simp add: py_sub_def fl_small)
  have p0: "0 \<le> 7 * (1 - exp (- (1 / 2) :: real))"
    and p7: "7 * (1 - exp (- (1 / 2) :: real)) \<le> 7"
    using pos le1 by simp_all
  have m: "py_mul (Fin 7) (Fin (1 - exp (- (1 / 2)))) = Fin (7 * (1 - exp (- (1 / 2))))"
    using p0 p7 by (intro py_mul_Fin order_trans [OF _ float_max_million]) linarith
  have a: "py_add (Fin 3) (Fin (7 * (1 - exp (- (1 / 2)))))
             = Fin (3 + 7 * (1 - exp (- (1 / 2))))"
    using p0 p7 by (intro py_add_Fin order_trans [OF _ float_max_million]) linarith
  have val: "py_add (Fin 3)
               (py_mul (py_sub (Fin 10) (Fin 3)) (py_sub (Fin 1) (np_exp (- (1 / 2)))))
             = Fin (3 + 7 * (1 - exp (- (1 / 2))))"
    by (simp only: e c d m a)
  have st: "update_target_bias (init 20 (Fin 3)) 5 (Fin 10)
       = \<lparr> response_time = 20, bias_level = Fin 3, target_bias = Fin 10,
            last_target_bias = Fin 0, target_index = 25, last_update_index = 5 \<rparr>"
    by (simp add: update_target_bias_def init_def)
  have x: "(- real_of_int (15 - 5)) / real_of_int 20 = - (1 / 2)"
    by simp
  from calculate_bias_gradual_in_transit [OF r lt]
  have "calculate_bias (update_target_bias (init 20 (Fin 3)) 5 (Fin 10)) 15 ''gradual''
       = Inr (\<lparr> response_time = 20, bias_level = Fin (3 + 7 * (1 - exp (- (1 / 2)))),
                target_bias = Fin 10, last_target_bias = Fin 0,
                target_index = 25, last_update_index = 5 \<rparr>,
              Fin (3 + 7 * (1 - exp (- (1 / 2)))))"
    by (simp only: st BiasAdjustment.simps x val)
  with r lt show ?thesis
    by (intro conjI)
qed

text \<open>
  The claim without the side condition fails: on an object constructed with response
  time zero, the division \<^verbatim>\<open>-time_elapsed / self.response_time\<close> raises before any
  value is stored or returned.
\<close>

theorem calculate_bias_gradual_counterexample:
  "4 < target_index (update_target_bias (init 0 (Fin 0)) 5 (Fin 1))
   \<and> calculate_bias (update_target_bias (init 0 (Fin 0)) 5 (Fin 1)) 4 ''gradual''
       = Inl ZeroDivisionError
   \<and> (\<forall>r. calculate_bias (update_target_bias (init 0 (Fin 0)) 5 (Fin 1)) 4 ''gradual''
            \<noteq> Inr r)"
  by (simp add: calculate_bias_def update_target_bias_def init_def)

text \<open>
  C3: with an index below the arrival index and the arrival index different from the
  set index, the policy \<^verbatim>\<open>'linear'\<close> stores and returns
  \<open>slope * (index - last_update_index) + last_target_bias\<close>, where \<open>slope\<close> is
  \<open>(target_bias - last_target_bias) / (target_index - last_update_index)\<close>. The
  outcome does not depend on the current value stored before the call.
\<close>

theorem calculate_bias_linear_in_transit:
  assumes "index < target_index s" and "target_index s \<noteq> last_update_index s"
  shows "calculate_bias s index ''linear''
     = Inr (s\<lparr>bias_level :=
               py_add
                 (py_mul
                    (py_div_int (py_sub (target_bias s) (last_target_bias s))
                       (target_index s - last_update_index s))
                    (Fin (real_of_int (index - last_update_index s))))
                 (last_target_bias s)\<rparr>,
            py_add
              (py_mul
                 (py_div_int (py_sub (target_bias s) (last_target_bias s))
                    (target_index s - last_update_index s))
                 (Fin (real_of_int (index - last_update_index s))))
              (last_target_bias s))
    \<and> calculate_bias (s\<lparr>bias_level := c\<rparr>) index ''linear''
        = calculate_bias s index ''linear''"
proof -
  from assms(2) have ne: "target_index s - last_update_index s \<noteq> 0"
    by simp
  have a: "calculate_bias s index ''linear''
     = Inr (s\<lparr>bias_level :=
               py_add
                 (py_mul
                    (py_div_int (py_sub (target_bias s) (last_target_bias s))
                       (target_index s - last_update_index s))
                    (Fin (real_of_int (index - last_update_index s))))
                 (last_target_bias s)\<rparr>,
            py_add
              (py_mul
                 (py_div_int (py_sub (target_bias s) (last_target_bias s))
                    (target_index s - last_update_index s))
                 (Fin (real_of_int (index - last_update_index s))))
              (last_target_bias s))"
    unfolding calculate_bias_def Let_def using assms(1) ne
    by (simp only: if_True if_False simp_thms list.inject char.inject list.distinct)
  have b: "calculate_bias (s\<lparr>bias_level := c\<rparr>) index ''linear''
        = calculate_bias s index ''linear''"
    by (simp add: calculate_bias_def Let_def)
  from a b show ?thesis by simp
qed

theorem calculate_bias_linear_in_transit_witness:
  "15 < target_index (update_target_bias (init 20 (Fin 3)) 5 (Fin 10))
   \<and> target_index (update_target_bias (init 20 (Fin 3)) 5 (Fin 10))
       \<noteq> last_update_index (update_target_bias (init 20 (Fin 3)) 5 (Fin 10))
   \<and> calculate_bias (update_target_bias (init 20 (Fin 3)) 5 (Fin 10)) 15 ''linear''
       = Inr (\<lparr> response_time = 20, bias_level = Fin 5, target_bias = Fin 10,
                last_target_bias = Fin 0, target_index = 25, last_update_index = 5 \<rparr>, Fin 5)
   \<and> calculate_bias ((update_target_bias (init 20 (Fin 3)) 5 (Fin 10))\<lparr>bias_level := Fin 77\<rparr>)
         15 ''linear''
       = calculate_bias (update_target_bias (init 20 (Fin 3)) 5 (Fin 10)) 15 ''linear''"
proof -
  have lt: "15 < target_index (update_target_bias (init 20 (Fin 3)) 5 (Fin 10))"
    by (simp add: update_target_bias_def init_def)
  have ne: "target_index (update_target_bias (init 20 (Fin 3)) 5 (Fin 10))
       \<noteq> last_update_index (update_target_bias (init 20 (Fin 3)) 5 (Fin 10))"
    by (simp add: update_target_bias_def init_def)
  from calculate_bias_linear_in_transit [OF lt ne, of "Fin 77"] lt ne
  show ?thesis
    by (simp add: update_target_bias_def init_def py_sub_def fl_small)
qed

text \<open>
  C7: a policy that is neither \<^verbatim>\<open>'gradual'\<close> nor \<^verbatim>\<open>'linear'\<close> holds: the call
  returns the stored current value and the state is the one before the call.
\<close>

theorem calculate_bias_unknown_policy:
  assumes "bias_type \<noteq> ''gradual''" and "bias_type \<noteq> ''linear''"
  shows "calculate_bias s index bias_type = Inr (s, bias_level s)"
  using assms by (simp add: calculate_bias_def)

theorem calculate_bias_unknown_policy_witness:
  "''bogus'' \<noteq> ''gradual'' \<and> ''bogus'' \<noteq> ''linear''
   \<and> calculate_bias (update_target_bias (init 20 (Fin 3)) 5 (Fin 10)) 7 ''bogus''
       = Inr (update_target_bias (init 20 (Fin 3)) 5 (Fin 10), Fin 3)"
proof -
  have a: "''bogus'' \<noteq> ''gradual''" and b: "''bogus'' \<noteq> ''linear''"
    by simp_all
  from calculate_bias_unknown_policy
    [OF a b, of "update_target_bias (init 20 (Fin 3)) 5 (Fin 10)" 7] a b
  show ?thesis
    by (simp add: update_target_bias_def init_def)
qed

text \<open>
  C10: the constructed object has target \<open>0\<close> and both indices \<open>0\<close>, whatever the
  response time and the initial value. Its first \<^verbatim>\<open>calculate_bias\<close> with the policy
  \<^verbatim>\<open>'gradual'\<close> or \<^verbatim>\<open>'linear'\<close> at an index that is not negative takes the arrival
  branch: it stores \<open>0\<close> as the current value and returns it, and the initial value
  is gone.
\<close>

theorem init_then_calculate_bias:
  assumes "0 \<le> index" and "bias_type = ''gradual'' \<or> bias_type = ''linear''"
  shows "target_bias (init rt bias_init) = Fin 0
    \<and> last_update_index (init rt bias_init) = 0
    \<and> target_index (init rt bias_init) = 0
    \<and> calculate_bias (init rt bias_init) index bias_type
        = Inr ((init rt bias_init)\<lparr>bias_level := Fin 0\<rparr>, Fin 0)"
  using assms by (auto simp add: calculate_bias_def init_def)

theorem init_then_calculate_bias_witness:
  "(0::int) \<le> 4 \<and> (''gradual'' = ''gradual'' \<or> ''gradual'' = ''linear'')
   \<and> calculate_bias (init 20 (Fin 3)) 4 ''gradual''
       = Inr (\<lparr> response_time = 20, bias_level = Fin 0, target_bias = Fin 0,
                last_target_bias = Fin 3, target_index = 0, last_update_index = 0 \<rparr>, Fin 0)"
proof -
  have i: "(0::int) \<le> 4"
    by simp
  have p: "''gradual'' = ''gradual'' \<or> ''gradual'' = ''linear''"
    by simp
  from init_then_calculate_bias [OF i p, of 20 "Fin 3"] i p
  show ?thesis
    by (simp add: init_def)
qed

section \<open>The combined step\<close>

text \<open>
  C6: \<^verbatim>\<open>apply_bias\<close> calls \<^verbatim>\<open>validate_bias_input\<close> first. When the target was
  changed by that call, or the index is at most the arrival index, the result is that
  of \<^verbatim>\<open>calculate_bias\<close> on the validated state. Otherwise the stored current value
  is returned and the state is the one before the call.
\<close>

theorem apply_bias_recompute_iff:
  "(py_ne (target_bias s) bias_input \<or> index \<le> target_index s \<longrightarrow>
      apply_bias s index bias_input bias_type
        = calculate_bias (fst (validate_bias_input s index bias_input)) index bias_type)
   \<and> (\<not> (py_ne (target_bias s) bias_input \<or> index \<le> target_index s) \<longrightarrow>
      apply_bias s index bias_input bias_type = Inr (s, bias_level s))
   \<and> (snd (validate_bias_input s index bias_input)
        \<or> index \<le> target_index (fst (validate_bias_input s index bias_input))
      \<longleftrightarrow> py_ne (target_bias s) bias_input \<or> index \<le> target_index s)"
  by (auto simp add: apply_bias_def validate_bias_input_def)

theorem apply_bias_recompute_iff_witness:
  "py_ne (target_bias (init 20 (Fin 3))) (Fin 10)
   \<and> apply_bias (init 20 (Fin 3)) 5 (Fin 10) ''linear''
       = Inr (\<lparr> response_time = 20, bias_level = Fin 0, target_bias = Fin 10,
                last_target_bias = Fin 0, target_index = 25, last_update_index = 5 \<rparr>, Fin 0)
   \<and> target_bias (init 20 (Fin 3)) = Fin 0
   \<and> target_index (init 20 (Fin 3)) < 5
   \<and> apply_bias (init 20 (Fin 3)) 5 (Fin 0) ''linear'' = Inr (init 20 (Fin 3), Fin 3)"
proof -
  have a: "py_ne (target_bias (init 20 (Fin 3))) (Fin 10)"
    by (simp add: init_def)
  have b1: "target_bias (init 20 (Fin 3)) = Fin 0" and b2: "target_index (init 20 (Fin 3)) < 5"
    by (simp_all add: init_def)
  have c: "calculate_bias (fst (validate_bias_input (init 20 (Fin 3)) 5 (Fin 10))) 5 ''linear''
       = Inr (\<lparr> response_time = 20, bias_level = Fin 0, target_bias = Fin 10,
                last_target_bias = Fin 0, target_index = 25, last_update_index = 5 \<rparr>, Fin 0)"
    by (simp add: calculate_bias_def validate_bias_input_def update_target_bias_def init_def
          Let_def py_sub_def fl_small)
  from apply_bias_recompute_iff [of "init 20 (Fin 3)" "Fin 10" 5 "''linear''"] a c
  have d: "apply_bias (init 20 (Fin 3)) 5 (Fin 10) ''linear''
       = Inr (\<lparr> response_time = 20, bias_level = Fin 0, target_bias = Fin 10,
                last_target_bias = Fin 0, target_index = 25, last_update_index = 5 \<rparr>, Fin 0)"
    by simp
  from apply_bias_recompute_iff [of "init 20 (Fin 3)" "Fin 0" 5 "''linear''"] b1 b2
  have e: "apply_bias (init 20 (Fin 3)) 5 (Fin 0) ''linear'' = Inr (init 20 (Fin 3), Fin 3)"
    by (simp add: init_def)
  from a b1 b2 d e show ?thesis by simp
qed

section \<open>Division by zero in the linear slope\<close>

lemma calculate_bias_frame:
  assumes "calculate_bias s i p = Inr (s', v)"
  shows "s' = s\<lparr>bias_level := v\<rparr>"
  using assms by (auto simp add: calculate_bias_def Let_def split: if_splits)

lemma apply_bias_frame:
  assumes "apply_bias s i x p = Inr (s', v)"
  shows "s' = (fst (validate_bias_input s i x))\<lparr>bias_level := v\<rparr>"
proof (cases "snd (validate_bias_input s i x) \<or> i \<le> target_index (fst (validate_bias_input s i x))")
  case True
  with assms have "calculate_bias (fst (validate_bias_input s i x)) i p = Inr (s', v)"
    by (simp add: apply_bias_def split_beta)
  then show ?thesis by (rule calculate_bias_frame)
next
  case False
  with assms show ?thesis
    by (auto simp add: apply_bias_def split_beta)
qed

lemma window_inv_validate:
  "window_inv rt s \<Longrightarrow> window_inv rt (fst (validate_bias_input s i x))"
  by (simp add: window_inv_def validate_bias_input_def update_target_bias_def)

lemma window_inv_update:
  "window_inv rt s \<Longrightarrow> window_inv rt (update_target_bias s i x)"
  by (simp add: window_inv_def update_target_bias_def)

lemma window_inv_bias_level:
  "window_inv rt s \<Longrightarrow> window_inv rt (s\<lparr>bias_level := v\<rparr>)"
  by (simp add: window_inv_def)

lemma reachable_window_inv:
  "reachable rt b s \<Longrightarrow> window_inv rt s"
proof (induction rule: reachable.induct)
  case reach_init
  show ?case by (simp add: window_inv_def init_def)
next
  case (reach_validate s i x)
  then show ?case by (simp add: window_inv_validate)
next
  case (reach_update s i x)
  then show ?case by (simp add: window_inv_update)
next
  case (reach_calculate s i p s' v)
  then show ?case
    using calculate_bias_frame window_inv_bias_level by blast
next
  case (reach_apply s i x p s' v)
  from reach_apply.hyps(2) have "s' = (fst (validate_bias_input s i x))\<lparr>bias_level := v\<rparr>"
    by (rule apply_bias_frame)
  with reach_apply.IH show ?case
    by (simp add: window_inv_validate window_inv_bias_level)
qed

lemma linear_zero_division_only_if:
  "calculate_bias s index ''linear'' = Inl ZeroDivisionError
   \<Longrightarrow> index < target_index s \<and> target_index s = last_update_index s"
  by (auto simp add: calculate_bias_def Let_def split: if_splits)

text \<open>
  C8, as amended: the linear slope divides by zero only if the arrival index equals the
  set index. On an object constructed with a positive response time, in every state
  it can reach, the two are equal only while both are still the \<open>0\<close> of the
  constructor, so at every index that is not negative the divisor of the linear branch
  is not zero when the branch is taken, and the call returns.
\<close>

theorem linear_divisor_nonzero:
  assumes "reachable rt b s" and "0 < rt"
  shows "(calculate_bias s index ''linear'' = Inl ZeroDivisionError
            \<longrightarrow> target_index s = last_update_index s)
    \<and> (target_index s = last_update_index s
            \<longrightarrow> target_index s = 0 \<and> last_update_index s = 0)
    \<and> (0 \<le> index \<and> index < target_index s
            \<longrightarrow> target_index s - last_update_index s \<noteq> 0
              \<and> (\<exists>r. calculate_bias s index ''linear'' = Inr r))"
proof -
  from assms(1) have inv: "window_inv rt s"
    by (rule reachable_window_inv)
  have a: "calculate_bias s index ''linear'' = Inl ZeroDivisionError
            \<longrightarrow> target_index s = last_update_index s"
    using linear_zero_division_only_if by blast
  have b: "target_index s = last_update_index s
            \<longrightarrow> target_index s = 0 \<and> last_update_index s = 0"
    using inv assms(2) by (auto simp add: window_inv_def)
  have c: "0 \<le> index \<and> index < target_index s
            \<longrightarrow> target_index s - last_update_index s \<noteq> 0
              \<and> (\<exists>r. calculate_bias s index ''linear'' = Inr r)"
  proof
    assume i: "0 \<le> index \<and> index < target_index s"
    with b have ne: "target_index s - last_update_index s \<noteq> 0"
      by auto
    with i have "\<exists>r. calculate_bias s index ''linear'' = Inr r"
      by (simp add: calculate_bias_def Let_def)
    with ne show "target_index s - last_update_index s \<noteq> 0
              \<and> (\<exists>r. calculate_bias s index ''linear'' = Inr r)"
      by simp
  qed
  from a b c show ?thesis by simp
qed

theorem linear_divisor_nonzero_witness:
  "reachable 20 (Fin 3) (update_target_bias (init 20 (Fin 3)) 5 (Fin 10)) \<and> (0::int) < 20
   \<and> (0 \<le> (15::int) \<and> 15 < target_index (update_target_bias (init 20 (Fin 3)) 5 (Fin 10)))
   \<and> target_index (update_target_bias (init 20 (Fin 3)) 5 (Fin 10))
        - last_update_index (update_target_bias (init 20 (Fin 3)) 5 (Fin 10)) \<noteq> 0
   \<and> (\<exists>r. calculate_bias (update_target_bias (init 20 (Fin 3)) 5 (Fin 10)) 15 ''linear''
            = Inr r)"
proof -
  have r: "reachable 20 (Fin 3) (update_target_bias (init 20 (Fin 3)) 5 (Fin 10))"
    by (rule reach_update) (rule reach_init)
  have p: "(0::int) < 20"
    by simp
  have i: "0 \<le> (15::int) \<and> 15 < target_index (update_target_bias (init 20 (Fin 3)) 5 (Fin 10))"
    by (simp add: update_target_bias_def init_def)
  from linear_divisor_nonzero [OF r p, of 15] r p i
  show ?thesis
    by simp
qed

text \<open>
  The claim as stated fails on the constructed object: with response time \<open>20\<close> both
  indices are \<open>0\<close>, a negative index takes the linear branch, and the division raises.
\<close>

theorem linear_divisor_counterexample:
  "reachable 20 (Fin 0) (init 20 (Fin 0)) \<and> (0::int) < 20
   \<and> response_time (init 20 (Fin 0)) \<noteq> 0
   \<and> - 1 < target_index (init 20 (Fin 0))
   \<and> target_index (init 20 (Fin 0)) - last_update_index (init 20 (Fin 0)) = 0
   \<and> calculate_bias (init 20 (Fin 0)) (- 1) ''linear'' = Inl ZeroDivisionError"
proof -
  have "reachable 20 (Fin 0) (init 20 (Fin 0))"
    by (rule reach_init)
  then show ?thesis
    by (simp add: calculate_bias_def init_def)
qed

section \<open>Monotone approach under the gradual policy\<close>

lemma calculate_bias_gradual_eq:
  assumes "response_time s \<noteq> 0" and "index < target_index s"
  shows "calculate_bias s index ''gradual''
     = Inr (s\<lparr>bias_level :=
               py_add (bias_level s)
                 (py_mul (py_sub (target_bias s) (bias_level s))
                    (py_sub (Fin 1)
                       (np_exp ((- real_of_int (index - last_update_index s))
                                  / real_of_int (response_time s)))))\<rparr>,
            py_add (bias_level s)
              (py_mul (py_sub (target_bias s) (bias_level s))
                 (py_sub (Fin 1)
                    (np_exp ((- real_of_int (index - last_update_index s))
                               / real_of_int (response_time s))))))"
  unfolding calculate_bias_def Let_def using assms
  by (simp only: if_True if_False simp_thms)

lemma gradual_fraction:
  fixes e r :: int
  assumes "0 \<le> e" and "0 < r"
  shows "py_sub (Fin 1) (np_exp ((- real_of_int e) / real_of_int r))
           = Fin (1 - exp ((- real_of_int e) / real_of_int r))"
    and "0 \<le> 1 - exp ((- real_of_int e) / real_of_int r)"
    and "1 - exp ((- real_of_int e) / real_of_int r) \<le> 1"
proof -
  let ?x = "(- real_of_int e) / real_of_int r"
  from assms have x: "?x \<le> 0"
    by (simp add: divide_nonpos_pos)
  then have le1: "exp ?x \<le> 1"
    by simp
  have pos: "0 < exp ?x"
    by simp
  from le1 show "0 \<le> 1 - exp ?x"
    by simp
  from pos show "1 - exp ?x \<le> 1"
    by simp
  have "\<bar>1 - exp ?x\<bar> \<le> float_max"
    using le1 pos float_max_million by linarith
  then have "py_sub (Fin 1) (Fin (exp ?x)) = Fin (1 - exp ?x)"
    by (rule py_sub_Fin)
  with x show "py_sub (Fin 1) (np_exp ?x) = Fin (1 - exp ?x)"
    by (simp only: np_exp_nonpos)
qed

lemma gradual_fraction_pos:
  fixes e r :: int
  assumes "0 < e" and "0 < r"
  shows "0 < 1 - exp ((- real_of_int e) / real_of_int r)"
proof -
  from assms have "(- real_of_int e) / real_of_int r < 0"
    by (simp add: divide_neg_pos)
  then have "exp ((- real_of_int e) / real_of_int r) < 1"
    by simp
  then show ?thesis
    by simp
qed

lemma gradual_step_bounds:
  assumes rt: "0 < response_time s"
    and lo: "last_update_index s \<le> i" and hi: "i < target_index s"
    and bl: "bias_level s = Fin b" and tb: "target_bias s = Fin T"
    and le: "b \<le> T"
    and rb: "\<bar>b\<bar> \<le> float_max" and rT: "\<bar>T\<bar> \<le> float_max"
    and gap: "T - b \<le> float_max"
  shows "\<exists>v. calculate_bias s i ''gradual'' = Inr (s\<lparr>bias_level := Fin v\<rparr>, Fin v)
           \<and> b \<le> v \<and> v \<le> T"
proof -
  define c where "c = 1 - exp ((- real_of_int (i - last_update_index s)) / real_of_int (response_time s))"
  define v where "v = b + (T - b) * c"
  from lo have e: "0 \<le> i - last_update_index s"
    by simp
  have cf: "py_sub (Fin 1)
              (np_exp ((- real_of_int (i - last_update_index s)) / real_of_int (response_time s)))
            = Fin c"
    and c0: "0 \<le> c" and c1: "c \<le> 1"
    unfolding c_def using gradual_fraction [OF e rt] by blast+
  from le have d: "0 \<le> T - b"
    by simp
  have m0: "0 \<le> (T - b) * c"
    using d c0 by (rule mult_nonneg_nonneg)
  have "(T - b) * c \<le> (T - b) * 1"
    using c1 d by (rule mult_left_mono)
  then have m1: "(T - b) * c \<le> T - b"
    by simp
  from m0 have lower: "b \<le> v"
    by (simp add: v_def)
  from m1 have upper: "v \<le> T"
    by (simp add: v_def)
  have df: "py_sub (Fin T) (Fin b) = Fin (T - b)"
    using d gap by (intro py_sub_Fin) linarith
  have mf: "py_mul (Fin (T - b)) (Fin c) = Fin ((T - b) * c)"
    using m0 m1 gap by (intro py_mul_Fin) linarith
  have "\<bar>v\<bar> \<le> float_max"
    using lower upper rb rT by linarith
  then have "\<bar>b + (T - b) * c\<bar> \<le> float_max"
    by (simp only: v_def)
  then have "py_add (Fin b) (Fin ((T - b) * c)) = Fin (b + (T - b) * c)"
    by (rule py_add_Fin)
  then have af: "py_add (Fin b) (Fin ((T - b) * c)) = Fin v"
    by (simp only: v_def)
  have val: "py_add (bias_level s)
               (py_mul (py_sub (target_bias s) (bias_level s))
                  (py_sub (Fin 1)
                     (np_exp ((- real_of_int (i - last_update_index s))
                                / real_of_int (response_time s)))))
             = Fin v"
    by (simp only: bl tb cf df mf af)
  from rt have "response_time s \<noteq> 0"
    by simp
  from calculate_bias_gradual_eq [OF this hi]
  have "calculate_bias s i ''gradual'' = Inr (s\<lparr>bias_level := Fin v\<rparr>, Fin v)"
    by (simp only: val)
  with lower upper show ?thesis
    by blast
qed

lemma gradual_seq_bounds:
  assumes "0 < response_time s"
    and "\<forall>j\<in>set idxs. last_update_index s \<le> j \<and> j < target_index s"
    and "bias_level s = Fin b" and "target_bias s = Fin T"
    and "b \<le> T"
    and "\<bar>b\<bar> \<le> float_max" and "\<bar>T\<bar> \<le> float_max"
    and "T - b \<le> float_max"
  shows "\<exists>s' vs. calculate_bias_seq s idxs ''gradual'' = Inr (s', map Fin vs)
           \<and> length vs = length idxs
           \<and> sorted (b # vs)
           \<and> (\<forall>v\<in>set vs. v \<le> T)
           \<and> target_bias s' = Fin T"
  using assms
proof (induction idxs arbitrary: s b)
  case Nil
  then show ?case by simp
next
  case (Cons i idxs)
  from Cons.prems(2) have lo: "last_update_index s \<le> i" and hi: "i < target_index s"
    by simp_all
  from gradual_step_bounds [OF Cons.prems(1) lo hi Cons.prems(3-8)]
  obtain v where step: "calculate_bias s i ''gradual'' = Inr (s\<lparr>bias_level := Fin v\<rparr>, Fin v)"
    and bv: "b \<le> v" and vt: "v \<le> T"
    by blast
  let ?s1 = "s\<lparr>bias_level := Fin v\<rparr>"
  have p1: "0 < response_time ?s1"
    using Cons.prems(1) by simp
  have p2: "\<forall>j\<in>set idxs. last_update_index ?s1 \<le> j \<and> j < target_index ?s1"
    using Cons.prems(2) by simp
  have p3: "bias_level ?s1 = Fin v"
    by simp
  have p4: "target_bias ?s1 = Fin T"
    using Cons.prems(4) by simp
  have p6: "\<bar>v\<bar> \<le> float_max"
    using bv vt Cons.prems(6,7) by linarith
  have p8: "T - v \<le> float_max"
    using bv Cons.prems(8) by linarith
  from Cons.IH [OF p1 p2 p3 p4 vt p6 Cons.prems(7) p8]
  obtain s' vs where rest: "calculate_bias_seq ?s1 idxs ''gradual'' = Inr (s', map Fin vs)"
    and len: "length vs = length idxs"
    and srt: "sorted (v # vs)"
    and bnd: "\<forall>x\<in>set vs. x \<le> T"
    and tgt: "target_bias s' = Fin T"
    by auto
  have run: "calculate_bias_seq s (i # idxs) ''gradual'' = Inr (s', map Fin (v # vs))"
    using step rest by simp
  have len': "length (v # vs) = length (i # idxs)"
    using len by simp
  have srt': "sorted (b # v # vs)"
    using srt bv by auto
  have bnd': "\<forall>x\<in>set (v # vs). x \<le> T"
    using bnd vt by simp
  from run len' srt' bnd' tgt show ?case
    by blast
qed

text \<open>
  C9, as amended: a finite target above the finite current value is set at index \<open>i\<close>
  and not changed again, and their difference does not overflow. Successive
  \<^verbatim>\<open>calculate_bias\<close> calls with the policy \<^verbatim>\<open>'gradual'\<close> at strictly increasing
  indices from \<open>i\<close> on and below the arrival index all return finite values, and
  the values they return, after the value held at the update, never decrease and never
  exceed the target.
\<close>

theorem gradual_monotone_approach:
  assumes "bias_level s0 = Fin b" and "b < T"
    and "\<bar>b\<bar> \<le> float_max" and "\<bar>T\<bar> \<le> float_max"
    and "T - b \<le> float_max"
    and "sorted_wrt (<) idxs"
    and "\<forall>j\<in>set idxs. i \<le> j \<and> j < i + response_time s0"
  shows "\<exists>s' vs. calculate_bias_seq (update_target_bias s0 i (Fin T)) idxs ''gradual''
                    = Inr (s', map Fin vs)
           \<and> length vs = length idxs
           \<and> sorted (b # vs)
           \<and> (\<forall>v\<in>set vs. v \<le> T)
           \<and> target_bias s' = Fin T"
proof (cases idxs)
  case Nil
  then show ?thesis
    by (simp add: update_target_bias_def)
next
  case (Cons j js)
  let ?s = "update_target_bias s0 i (Fin T)"
  from assms(7) Cons have "i \<le> j \<and> j < i + response_time s0"
    by simp
  then have p1: "0 < response_time ?s"
    by (simp add: update_target_bias_def)
  have p2: "\<forall>j\<in>set idxs. last_update_index ?s \<le> j \<and> j < target_index ?s"
    using assms(7) by (simp add: update_target_bias_def)
  have p3: "bias_level ?s = Fin b"
    using assms(1) by (simp add: update_target_bias_def)
  have p4: "target_bias ?s = Fin T"
    by (simp add: update_target_bias_def)
  from assms(2) have p5: "b \<le> T"
    by simp
  from gradual_seq_bounds [OF p1 p2 p3 p4 p5 assms(3) assms(4) assms(5)]
  show ?thesis .
qed

theorem gradual_monotone_approach_witness:
  "bias_level (init 20 (Fin 3)) = Fin 3 \<and> (3::real) < 10
   \<and> \<bar>3::real\<bar> \<le> float_max \<and> \<bar>10::real\<bar> \<le> float_max \<and> (10::real) - 3 \<le> float_max
   \<and> sorted_wrt (<) [5, 6, 24 :: int]
   \<and> (5::int) \<le> 5 \<and> 5 < 5 + response_time (init 20 (Fin 3))
   \<and> (5::int) \<le> 6 \<and> 6 < 5 + response_time (init 20 (Fin 3))
   \<and> (5::int) \<le> 24 \<and> 24 < 5 + response_time (init 20 (Fin 3))
   \<and> (\<exists>s' vs. calculate_bias_seq (update_target_bias (init 20 (Fin 3)) 5 (Fin 10)) [5, 6, 24]
                    ''gradual''
                  = Inr (s', map Fin vs)
           \<and> length vs = length [5, 6, 24 :: int]
           \<and> sorted (3 # vs)
           \<and> (\<forall>v\<in>set vs. v \<le> 10)
           \<and> target_bias s' = Fin 10)"
proof -
  have a: "bias_level (init 20 (Fin 3)) = Fin 3"
    by (simp add: init_def)
  have b: "(3::real) < 10"
    by simp
  have r3: "\<bar>3::real\<bar> \<le> float_max" and r10: "\<bar>10::real\<bar> \<le> float_max"
    and g: "(10::real) - 3 \<le> float_max"
    using float_max_million by simp_all
  have srt: "sorted_wrt (<) [5, 6, 24 :: int]"
    by simp
  have c1: "(5::int) \<le> 5 \<and> 5 < 5 + response_time (init 20 (Fin 3))"
    and c2: "(5::int) \<le> 6 \<and> 6 < 5 + response_time (init 20 (Fin 3))"
    and c3: "(5::int) \<le> 24 \<and> 24 < 5 + response_time (init 20 (Fin 3))"
    by (simp_all add: init_def)
  from c1 c2 c3
  have c: "\<forall>j\<in>set [5, 6, 24 :: int]. 5 \<le> j \<and> j < 5 + response_time (init 20 (Fin 3))"
    by simp
  from gradual_monotone_approach [OF a b r3 r10 g srt c]
  have "\<exists>s' vs. calculate_bias_seq (update_target_bias (init 20 (Fin 3)) 5 (Fin 10)) [5, 6, 24]
                    ''gradual''
                  = Inr (s', map Fin vs)
           \<and> length vs = length [5, 6, 24 :: int]
           \<and> sorted (3 # vs)
           \<and> (\<forall>v\<in>set vs. v \<le> 10)
           \<and> target_bias s' = Fin 10" .
  with a b r3 r10 g srt c1 c2 c3 show ?thesis
    by (intro conjI) (simp_all only: simp_thms)
qed

text \<open>
  The claim as stated fails when the difference overflows: with the current value
  \<open>-10\<^sup>3\<^sup>0\<^sup>8\<close> and the target \<open>10\<^sup>3\<^sup>0\<^sup>8\<close>, both finite doubles,
  \<^verbatim>\<open>self.target_bias - self.bias_level\<close> is infinite, so the first call inside the
  window returns infinity, which exceeds the target, and the second returns NaN.
\<close>

theorem gradual_monotone_approach_counterexample:
  "py_lt (bias_level (init 20 (Fin (- (10 ^ 308))))) (Fin (10 ^ 308))
   \<and> (10::real) ^ 308 \<le> float_max
   \<and> sorted_wrt (<) [6, 7 :: int]
   \<and> (5::int) \<le> 6 \<and> 7 < 5 + response_time (init 20 (Fin (- (10 ^ 308))))
   \<and> calculate_bias_seq (update_target_bias (init 20 (Fin (- (10 ^ 308)))) 5 (Fin (10 ^ 308)))
        [6, 7] ''gradual''
       = Inr (\<lparr> response_time = 20, bias_level = NaN, target_bias = Fin (10 ^ 308),
                last_target_bias = Fin 0, target_index = 25, last_update_index = 5 \<rparr>,
              [PInf, NaN])
   \<and> \<not> py_le PInf (Fin (10 ^ 308))"
proof -
  let ?S = "\<lparr> response_time = 20, bias_level = Fin (- (10 ^ 308)), target_bias = Fin (10 ^ 308),
              last_target_bias = Fin 0, target_index = 25, last_update_index = 5 \<rparr>"
  let ?S1 = "\<lparr> response_time = 20, bias_level = PInf, target_bias = Fin (10 ^ 308),
              last_target_bias = Fin 0, target_index = 25, last_update_index = 5 \<rparr>"
  let ?S2 = "\<lparr> response_time = 20, bias_level = NaN, target_bias = Fin (10 ^ 308),
              last_target_bias = Fin 0, target_index = 25, last_update_index = 5 \<rparr>"
  have st: "update_target_bias (init 20 (Fin (- (10 ^ 308)))) 5 (Fin (10 ^ 308)) = ?S"
    by (simp only: update_target_bias_def init_def BiasAdjustment.simps) simp
  have h1: "py_lt (bias_level (init 20 (Fin (- (10 ^ 308))))) (Fin (10 ^ 308))"
    by (simp add: init_def)
  have h2: "(10::real) ^ 308 \<le> float_max"
    by (rule float_max_above)
  have h3: "sorted_wrt (<) [6, 7 :: int]"
    by simp
  have h4: "(5::int) \<le> 6" and h5: "7 < 5 + response_time (init 20 (Fin (- (10 ^ 308))))"
    by (simp_all add: init_def)
  have h6: "\<not> py_le PInf (Fin (10 ^ 308))"
    by simp
  have "float_max < 10 ^ 308 + 10 ^ 308"
    using float_max_below by simp
  then have big: "py_sub (Fin (10 ^ 308)) (Fin (- (10 ^ 308))) = PInf"
    by (simp only: py_sub_def py_neg.simps py_add.simps fl_def minus_minus if_True)
  have f1: "py_sub (Fin 1) (np_exp ((- real_of_int 1) / real_of_int 20))
              = Fin (1 - exp ((- real_of_int 1) / real_of_int 20))"
    by (rule gradual_fraction) simp_all
  have q1: "0 < 1 - exp ((- real_of_int 1) / real_of_int 20)"
    by (rule gradual_fraction_pos) simp_all
  have f2: "py_sub (Fin 1) (np_exp ((- real_of_int 2) / real_of_int 20))
              = Fin (1 - exp ((- real_of_int 2) / real_of_int 20))"
    by (rule gradual_fraction) simp_all
  have q2: "0 < 1 - exp ((- real_of_int 2) / real_of_int 20)"
    by (rule gradual_fraction_pos) simp_all
  have m1: "py_mul PInf (Fin (1 - exp ((- real_of_int 1) / real_of_int 20))) = PInf"
    using q1 by simp
  have m2: "py_mul NInf (Fin (1 - exp ((- real_of_int 2) / real_of_int 20))) = NInf"
    using q2 by simp
  have d2: "py_sub (Fin (10 ^ 308)) PInf = NInf"
    by (simp only: py_sub_def py_neg.simps py_add.simps)
  have a1: "py_add (Fin (- (10 ^ 308))) PInf = PInf"
    by (simp only: py_add.simps)
  have a2: "py_add PInf NInf = NaN"
    by (simp only: py_add.simps)
  have e1: "(6::int) - 5 = 1" and e2: "(7::int) - 5 = 2"
    by simp_all
  have r: "response_time ?S \<noteq> 0" and r1: "response_time ?S1 \<noteq> 0"
    by simp_all
  have l1: "6 < target_index ?S" and l2: "7 < target_index ?S1"
    by simp_all
  from calculate_bias_gradual_eq [OF r l1]
  have s1: "calculate_bias ?S 6 ''gradual'' = Inr (?S1, PInf)"
    by (simp only: BiasAdjustment.simps e1 big f1 m1 a1)
  from calculate_bias_gradual_eq [OF r1 l2]
  have s2: "calculate_bias ?S1 7 ''gradual'' = Inr (?S2, NaN)"
    by (simp only: BiasAdjustment.simps e2 d2 f2 m2 a2)
  have run: "calculate_bias_seq ?S [6, 7] ''gradual'' = Inr (?S2, [PInf, NaN])"
    by (simp only: calculate_bias_seq.simps s1 s2 sum.case prod.case)
  from h1 h2 h3 h4 h5 h6 run show ?thesis
    by (simp only: st simp_thms)
qed

end
